theory Spec2Isabelle
  imports Complex_Main
begin

section \<open>Thrown values\<close>

text \<open>
  The services only ever throw \<open>new Error(message)\<close>; the JavaScript runtime adds
  \<open>TypeError\<close> for a property read on \<open>undefined\<close>. A collaborator (the sandbox
  SDK) may also reject with a value that is not an \<open>Error\<close> instance: \<open>NonError\<close>.
\<close>

datatype error = Error string | TypeError string | NonError

text \<open>\<open>error instanceof Error ? error.message : fallback\<close>\<close>

fun message_or :: "string \<Rightarrow> error \<Rightarrow> string" where
  "message_or fallback (Error m) = m"
| "message_or fallback (TypeError m) = m"
| "message_or fallback NonError = fallback"

text \<open>Whether a failure is one of the explicit \<open>throw new Error(...)\<close> statements.\<close>

fun thrown_by_guard :: "error + 'a \<Rightarrow> bool" where
  "thrown_by_guard (Inl (Error m)) = True"
| "thrown_by_guard (Inl (TypeError m)) = False"
| "thrown_by_guard (Inl NonError) = False"
| "thrown_by_guard (Inr v) = False"

section \<open>String operations of the JavaScript runtime\<close>

text \<open>\<open>String.prototype.endsWith\<close>\<close>

definition endsWith :: "string \<Rightarrow> string \<Rightarrow> bool" where
  "endsWith s suf = (length suf \<le> length s \<and> drop (length s - length suf) s = suf)"

text \<open>\<open>s.replace(pat, rep)\<close> with a string pattern: the first occurrence only.\<close>

fun replace_first :: "string \<Rightarrow> string \<Rightarrow> string \<Rightarrow> string" where
  "replace_first pat rep [] = (if pat = [] then rep else [])"
| "replace_first pat rep (c # cs) =
     (if take (length pat) (c # cs) = pat then rep @ drop (length pat) (c # cs)
      else c # replace_first pat rep cs)"

text \<open>Template-literal rendering of a non-negative integer.\<close>

definition digit_char :: "nat \<Rightarrow> char" where
  "digit_char d = char_of (48 + d)"

fun show_nat :: "nat \<Rightarrow> string" where
  "show_nat n = (if n < 10 then [digit_char n] else show_nat (n div 10) @ [digit_char (n mod 10)])"

declare show_nat.simps [simp del]

section \<open>The OpenRouter client (src/lib/openrouter.ts)\<close>

text \<open>
  \<open>OpenRouterMessage\<close> and \<open>OpenRouterResponse\<close> are declared in \<open>@/types\<close>; the
  records hold the properties the client reads and writes.
\<close>

record openRouterMessage =
  role :: string
  content :: string

record choice =
  message :: openRouterMessage

record openRouterResponse =
  choices :: "choice list"

text \<open>
  What \<open>fetch\<close> resolves to: the status line, the \<open>Retry-After\<close> header
  (\<open>None\<close> when absent; it only sets the length of the wait) and the body as
  \<open>response.json()\<close> yields it, typed as the source's cast says.
\<close>

record http_response =
  http_status :: nat
  statusText :: string
  retryAfter :: "string option"
  json :: openRouterResponse

text \<open>\<open>response.ok\<close>\<close>

definition ok :: "http_response \<Rightarrow> bool" where
  "ok r = (200 \<le> http_status r \<and> http_status r \<le> 299)"

text \<open>
  The remote endpoint, for one logical request: the answer to the \<open>n\<close>-th underlying
  call (counted from 0) when it asks for model \<open>m\<close>. The message list is fixed during one
  \<open>makeRequest\<close>, so it is part of the endpoint's behaviour here.
\<close>

type_synonym service = "nat \<Rightarrow> string \<Rightarrow> http_response"

definition too_many_retries :: error where
  "too_many_retries = Error ''OpenRouter API error: too many retries after 429''"

text \<open>
  The loop \<open>for (let i = 0; i <= retries; i++)\<close> of \<open>makeRequest\<close>. The second
  component of the result lists the model identifier of every underlying call made, in
  order. The wait between attempts (\<open>setTimeout\<close>) and the console output change
  neither the calls nor the result.
\<close>

function makeRequest_loop ::
  "service \<Rightarrow> nat \<Rightarrow> nat \<Rightarrow> string \<Rightarrow> error option \<Rightarrow> string list
     \<Rightarrow> (error + openRouterResponse) \<times> string list" where
  "makeRequest_loop svc retries i model lastError calls =
     (if i \<le> retries then
        (let response = svc i model; calls' = calls @ [model] in
         if http_status response = 429 then
           (let model' = (if endsWith model '':free'' then replace_first '':free'' [] model else model) in
            if i = retries then (Inl too_many_retries, calls')
            else makeRequest_loop svc retries (i + 1) model' (Some (Error ''429 Too Many Requests'')) calls')
         else if \<not> ok response then
           (Inl (Error (''OpenRouter API error: '' @ show_nat (http_status response) @ '' '' @ statusText response)),
            calls')
         else (Inr (json response), calls'))
      else
        (Inl (case lastError of Some e \<Rightarrow> e
              | None \<Rightarrow> Error ''OpenRouter API error: request failed after retries''),
         calls))"
  by pat_completeness auto
termination
  by (relation "measure (\<lambda>(svc, retries, i, model, lastError, calls). Suc retries - i)") auto

declare makeRequest_loop.simps [simp del]

definition default_model :: string where
  "default_model = ''qwen/qwen-2.5-coder-32b-instruct''"

definition makeRequest ::
  "string \<Rightarrow> service \<Rightarrow> string \<Rightarrow> nat \<Rightarrow> (error + openRouterResponse) \<times> string list" where
  "makeRequest apiKey svc model retries =
     (if apiKey = [] then (Inl (Error ''OpenRouter API key not configured''), [])
      else makeRequest_loop svc retries 0 model None [])"

text \<open>\<open>response.choices[0].message.content\<close>: an unguarded read.\<close>

definition first_choice_content :: "openRouterResponse \<Rightarrow> error + string" where
  "first_choice_content response =
     (case choices response of
        [] \<Rightarrow> Inl (TypeError ''Cannot read properties of undefined (reading 'message')'')
      | c # cs \<Rightarrow> Inr (content (message c)))"

text \<open>
  \<open>const response = await this.makeRequest(messages); return response.choices[0].message.content;\<close>
  is the body shared by every public method; they differ in the prompt text only.
\<close>

definition request_content :: "string \<Rightarrow> service \<Rightarrow> (error + string) \<times> string list" where
  "request_content apiKey svc =
     (case makeRequest apiKey svc default_model 2 of
        (Inl e, calls) \<Rightarrow> (Inl e, calls)
      | (Inr response, calls) \<Rightarrow> (first_choice_content response, calls))"

definition chatWithAssistant :: "string \<Rightarrow> service \<Rightarrow> (error + string) \<times> string list" where
  "chatWithAssistant apiKey svc = request_content apiKey svc"

definition generateTokenCode :: "string \<Rightarrow> service \<Rightarrow> (error + string) \<times> string list" where
  "generateTokenCode apiKey svc = request_content apiKey svc"

definition generatePoolCode :: "string \<Rightarrow> service \<Rightarrow> (error + string) \<times> string list" where
  "generatePoolCode apiKey svc = request_content apiKey svc"

definition generateVaultCode :: "string \<Rightarrow> service \<Rightarrow> (error + string) \<times> string list" where
  "generateVaultCode apiKey svc = request_content apiKey svc"

definition analyzeCode :: "string \<Rightarrow> service \<Rightarrow> (error + string) \<times> string list" where
  "analyzeCode apiKey svc = request_content apiKey svc"

section \<open>JavaScript numbers and \<open>parseFloat\<close>\<close>

text \<open>
  A \<open>number\<close> is \<open>NaN\<close>, an infinity, or a finite value, kept as the rational it
  denotes (\<open>-0\<close> and \<open>0\<close> compare equal, so one zero is enough here).
\<close>

datatype number = NaN | NegInf | Fin rat | PosInf

text \<open>The relational operator \<open>x < y\<close> on numbers: false whenever a \<open>NaN\<close> is involved.\<close>

fun num_less :: "number \<Rightarrow> number \<Rightarrow> bool" where
  "num_less NaN y = False"
| "num_less x NaN = False"
| "num_less PosInf y = False"
| "num_less x NegInf = False"
| "num_less NegInf y = True"
| "num_less x PosInf = True"
| "num_less (Fin a) (Fin b) = (a < b)"

text \<open>\<open>x <= y\<close>\<close>

fun num_le :: "number \<Rightarrow> number \<Rightarrow> bool" where
  "num_le NaN y = False"
| "num_le x NaN = False"
| "num_le x y = (\<not> num_less y x)"

text \<open>\<open>ToNumber\<close> of a numeric property that may be absent (\<open>undefined\<close> becomes \<open>NaN\<close>).\<close>

fun to_number :: "number option \<Rightarrow> number" where
  "to_number None = NaN"
| "to_number (Some n) = n"

definition is_whitespace :: "char \<Rightarrow> bool" where
  "is_whitespace c = (of_char c \<in> {9, 10, 11, 12, 13, 32, 160 :: nat})"

definition is_digit :: "char \<Rightarrow> bool" where
  "is_digit c = (48 \<le> (of_char c :: nat) \<and> (of_char c :: nat) \<le> 57)"

text \<open>The value of a run of decimal digits, most significant first.\<close>

definition digits_value :: "string \<Rightarrow> nat" where
  "digits_value ds = foldl (\<lambda>acc c. 10 * acc + (of_char c - 48)) 0 ds"

text \<open>\<open>ExponentPart\<close>: \<open>e\<close> or \<open>E\<close>, an optional sign and at least one digit; otherwise no exponent is read.\<close>

definition exponent_of :: "string \<Rightarrow> int" where
  "exponent_of s =
     (case s of
        [] \<Rightarrow> 0
      | c # r \<Rightarrow>
          if c = CHR ''e'' \<or> c = CHR ''E'' then
            (case r of
               [] \<Rightarrow> 0
             | d # r' \<Rightarrow>
                 if d = CHR ''-'' then
                   (if takeWhile is_digit r' = [] then 0 else - int (digits_value (takeWhile is_digit r')))
                 else if d = CHR ''+'' then int (digits_value (takeWhile is_digit r'))
                 else int (digits_value (takeWhile is_digit r)))
          else 0)"

text \<open>
  Rounding of an exact decimal value to a double, as far as comparisons with \<open>0\<close> can
  see it: magnitudes up to \<open>2^-1075\<close> round to zero, magnitudes from
  \<open>2^1024 - 2^970\<close> round to an infinity; in between the exact value is kept (rounding to
  nearest is monotonic and keeps the sign).
\<close>

definition round_double :: "rat \<Rightarrow> number" where
  "round_double v =
     (if \<bar>v\<bar> \<le> 1 / 2 ^ 1075 then Fin 0
      else if 2 ^ 1024 - 2 ^ 970 \<le> \<bar>v\<bar> then (if v < 0 then NegInf else PosInf)
      else Fin v)"

definition scale10 :: "rat \<Rightarrow> int \<Rightarrow> rat" where
  "scale10 v e = (if 0 \<le> e then v * 10 ^ nat e else v / 10 ^ nat (- e))"

text \<open>
  \<open>parseFloat\<close>: leading white space is skipped, then the longest prefix that is a
  \<open>StrDecimalLiteral\<close> is read; \<open>NaN\<close> when there is none.
\<close>

definition parseFloat :: "string \<Rightarrow> number" where
  "parseFloat s =
     (let t = dropWhile is_whitespace s;
          neg = (t \<noteq> [] \<and> hd t = CHR ''-'');
          u = (if t \<noteq> [] \<and> (hd t = CHR ''-'' \<or> hd t = CHR ''+'') then tl t else t)
      in if take 8 u = ''Infinity'' then (if neg then NegInf else PosInf)
         else
           (let ip = takeWhile is_digit u;
                r1 = dropWhile is_digit u;
                dot = (r1 \<noteq> [] \<and> hd r1 = CHR ''.'');
                fp = (if dot then takeWhile is_digit (tl r1) else []);
                r2 = (if dot then dropWhile is_digit (tl r1) else r1)
            in if ip = [] \<and> fp = [] then NaN
               else
                 (let v = scale10 (of_nat (digits_value (ip @ fp))) (exponent_of r2 - int (length fp))
                  in round_double (if neg then - v else v))))"

section \<open>The sandbox service (src/lib/sandbox.ts)\<close>

subsection \<open>Parameter records\<close>

text \<open>
  \<open>validateParameters\<close> takes \<open>parameters: any\<close> and casts it to the record of the
  artifact type, so one object type covers the three shapes: every property of
  \<open>TokenParameters\<close>, \<open>PoolParameters\<close> and \<open>VaultParameters\<close> that the service
  reads, with its declared type, \<open>None\<close> where the object has no such property.
\<close>

record parameters =
  name :: "string option"
  symbol :: "string option"
  decimals :: "number option"
  totalSupply :: "string option"
  tokenA :: "string option"
  tokenB :: "string option"
  fee :: "number option"
  initialLiquidityA :: "string option"
  initialLiquidityB :: "string option"
  token :: "string option"
  strategy :: "string option"
  minDeposit :: "string option"

text \<open>\<open>!x\<close> for a string property: true for \<open>undefined\<close> and for the empty string.\<close>

fun falsy :: "string option \<Rightarrow> bool" where
  "falsy None = True"
| "falsy (Some s) = (s = [])"

text \<open>\<open>x.length\<close>, which the source reads only behind \<open>!x ||\<close>.\<close>

fun str_length :: "string option \<Rightarrow> nat" where
  "str_length None = 0"
| "str_length (Some s) = length s"

text \<open>\<open>!x || parseFloat(x) <= 0\<close>\<close>

fun not_positive :: "string option \<Rightarrow> bool" where
  "not_positive None = True"
| "not_positive (Some s) = (s = [] \<or> num_le (parseFloat s) (Fin 0))"

text \<open>
  A run of \<open>if (cond) { errors.push(msg); }\<close> statements, in source order: the
  messages whose condition holds.
\<close>

definition pushed :: "(bool \<times> string) list \<Rightarrow> string list" where
  "pushed checks = map snd (filter fst checks)"

record validation =
  valid :: bool
  validation_errors :: "string list"

definition validate_token :: "parameters \<Rightarrow> string list" where
  "validate_token tokenParams = pushed
     [(falsy (name tokenParams) \<or> str_length (name tokenParams) < 1,
         ''Token name is required''),
      (falsy (symbol tokenParams) \<or> str_length (symbol tokenParams) < 1
         \<or> 10 < str_length (symbol tokenParams),
         ''Token symbol must be 1-10 characters''),
      (num_less (to_number (decimals tokenParams)) (Fin 0)
         \<or> num_less (Fin 18) (to_number (decimals tokenParams)),
         ''Decimals must be between 0 and 18''),
      (not_positive (totalSupply tokenParams),
         ''Total supply must be greater than 0'')]"

definition validate_pool :: "parameters \<Rightarrow> string list" where
  "validate_pool poolParams = pushed
     [(falsy (name poolParams) \<or> str_length (name poolParams) < 1,
         ''Pool name is required''),
      (falsy (tokenA poolParams) \<or> falsy (tokenB poolParams),
         ''Both tokens are required''),
      (tokenA poolParams = tokenB poolParams,
         ''Token A and Token B must be different''),
      (num_less (to_number (fee poolParams)) (Fin 0)
         \<or> num_less (Fin 100) (to_number (fee poolParams)),
         ''Fee must be between 0 and 100''),
      (not_positive (initialLiquidityA poolParams),
         ''Initial liquidity A must be greater than 0''),
      (not_positive (initialLiquidityB poolParams),
         ''Initial liquidity B must be greater than 0'')]"

definition validate_vault :: "parameters \<Rightarrow> string list" where
  "validate_vault vaultParams = pushed
     [(falsy (name vaultParams) \<or> str_length (name vaultParams) < 1,
         ''Vault name is required''),
      (falsy (token vaultParams),
         ''Token is required''),
      (falsy (strategy vaultParams) \<or> str_length (strategy vaultParams) < 1,
         ''Strategy is required''),
      (num_less (to_number (fee vaultParams)) (Fin 0)
         \<or> num_less (Fin 100) (to_number (fee vaultParams)),
         ''Fee must be between 0 and 100''),
      (not_positive (minDeposit vaultParams),
         ''Minimum deposit must be greater than 0'')]"

text \<open>
  The \<open>switch (type)\<close> has the three cases and no \<open>default\<close>. The type is a string at
  run time; the annotation \<open>'token' | 'pool' | 'vault'\<close> is not checked.
\<close>

definition validateParameters :: "string \<Rightarrow> parameters \<Rightarrow> validation" where
  "validateParameters type parameters =
     (let errors =
        (if type = ''token'' then validate_token parameters
         else if type = ''pool'' then validate_pool parameters
         else if type = ''vault'' then validate_vault parameters
         else [])
      in \<lparr>valid = (length errors = 0), validation_errors = errors\<rparr>)"

subsection \<open>Simulations and the registry\<close>

text \<open>
  Modelled from the spec: the declaration of \<open>SandboxSimulation\<close> (\<open>@/types\<close>) is not
  among the sources. The status values are those of the spec's data model; the service
  itself assigns \<open>'pending'\<close>, \<open>'compiling'\<close>, \<open>'success'\<close> and \<open>'error'\<close> only.
\<close>

datatype status = Pending | Generating | Compiling | Success | Failed  \<comment> \<open>\<open>Failed\<close> is \<open>'error'\<close>\<close>

text \<open>
  \<open>simulation.result\<close>: the \<open>catch\<close> blocks store \<open>success\<close> and \<open>errors\<close> only, so
  the other properties may be absent.
\<close>

record sim_result =
  success :: bool
  errors :: "string list"
  warnings :: "string list option"
  gasEstimate :: "string option"
  aiAnalysis :: "string option"

text \<open>The object literal \<open>{ success: false, errors: [m] }\<close> of the two \<open>catch\<close> blocks.\<close>

definition failure_result :: "string \<Rightarrow> sim_result" where
  "failure_result m =
     \<lparr>success = False, errors = [m], warnings = None, gasEstimate = None, aiAnalysis = None\<rparr>"

text \<open>
  Modelled from the spec: \<open>executionCount\<close> is the counter of the spec's data model. No
  line of the service declares, initialises or assigns it (the view layer keeps one on its
  own copies, read through \<open>(simulation as any).executionCount\<close>); \<open>None\<close> is the
  missing property. The other fields are those of the object literal in
  \<open>createSimulation\<close>, plus \<open>result\<close>.
\<close>

record simulation =
  sim_id :: string
  sim_type :: string
  sim_parameters :: parameters
  code :: string
  status :: status
  result :: "sim_result option"
  createdAt :: nat
  executionCount :: "nat option"

text \<open>\<open>private simulations: Map<string, SandboxSimulation>\<close>\<close>

type_synonym registry = "string \<rightharpoonup> simulation"

text \<open>
  \<open>createSimulation\<close>. The clock (\<open>Date.now()\<close>, \<open>new Date()\<close>) and the random
  suffix (\<open>Math.random().toString(36).substr(2, 9)\<close>) are inputs.
\<close>

definition createSimulation ::
  "registry \<Rightarrow> nat \<Rightarrow> string \<Rightarrow> string \<Rightarrow> parameters \<Rightarrow> simulation \<times> registry" where
  "createSimulation simulations now rnd type parameters =
     (let simulationId = ''sim_'' @ show_nat now @ ''_'' @ rnd;
          simulation = \<lparr>sim_id = simulationId, sim_type = type, sim_parameters = parameters,
                        code = [], status = Pending, result = None, createdAt = now,
                        executionCount = None\<rparr>
      in (simulation, simulations(simulationId \<mapsto> simulation)))"

text \<open>
  \<open>generateCode\<close> up to its \<open>await\<close>: the lookup and the first assignment. The stored
  object is mutated in place, so the registry shows the assignment at once.
\<close>

definition generateCode_start :: "registry \<Rightarrow> string \<Rightarrow> error + simulation \<times> registry" where
  "generateCode_start simulations simulationId =
     (case simulations simulationId of
        None \<Rightarrow> Inl (Error ''Simulation not found'')
      | Some simulation \<Rightarrow>
          (let simulation' = simulation\<lparr>status := Compiling\<rparr>
           in Inr (simulation', simulations(simulationId \<mapsto> simulation'))))"

text \<open>The \<open>switch (simulation.type)\<close> inside the \<open>try\<close>.\<close>

definition generate_for_type :: "string \<Rightarrow> service \<Rightarrow> string \<Rightarrow> error + string" where
  "generate_for_type apiKey svc type =
     (if type = ''token'' then fst (generateTokenCode apiKey svc)
      else if type = ''pool'' then fst (generatePoolCode apiKey svc)
      else if type = ''vault'' then fst (generateVaultCode apiKey svc)
      else Inl (Error ''Invalid simulation type''))"

definition generateCode ::
  "string \<Rightarrow> service \<Rightarrow> registry \<Rightarrow> string \<Rightarrow> (error + string) \<times> registry" where
  "generateCode apiKey svc simulations simulationId =
     (case generateCode_start simulations simulationId of
        Inl e \<Rightarrow> (Inl e, simulations)
      | Inr (simulation, simulations') \<Rightarrow>
          (case generate_for_type apiKey svc (sim_type simulation) of
             Inr generated \<Rightarrow>
               (Inr generated, simulations'(simulationId \<mapsto> simulation\<lparr>code := generated\<rparr>))
           | Inl e \<Rightarrow>
               (Inl e,
                simulations'(simulationId \<mapsto> simulation
                  \<lparr>status := Failed,
                   result := Some (failure_result (message_or ''Unknown error occurred'' e))\<rparr>))))"

subsection \<open>Reading the compiler's output\<close>

text \<open>\<open>s.split('\n')\<close>: always at least one piece.\<close>

fun split_lines :: "string \<Rightarrow> string list" where
  "split_lines [] = [[]]"
| "split_lines (c # cs) =
     (if c = CHR 0x0A then [] # split_lines cs
      else (case split_lines cs of l # ls \<Rightarrow> (c # l) # ls | [] \<Rightarrow> [[c]]))"

text \<open>\<open>String.prototype.trim\<close>\<close>

definition trim :: "string \<Rightarrow> string" where
  "trim s = rev (dropWhile is_whitespace (rev (dropWhile is_whitespace s)))"

text \<open>\<open>String.prototype.toLowerCase\<close> on the letters \<open>A\<close> to \<open>Z\<close>.\<close>

definition lower_char :: "char \<Rightarrow> char" where
  "lower_char c =
     (if 65 \<le> (of_char c :: nat) \<and> (of_char c :: nat) \<le> 90 then char_of (of_char c + 32 :: nat) else c)"

definition toLowerCase :: "string \<Rightarrow> string" where
  "toLowerCase s = map lower_char s"

text \<open>\<open>String.prototype.includes\<close>\<close>

fun str_includes :: "string \<Rightarrow> string \<Rightarrow> bool" where
  "str_includes [] sub = (sub = [])"
| "str_includes (c # cs) sub = (take (length sub) (c # cs) = sub \<or> str_includes cs sub)"

record process_output =
  exitCode :: int
  stdout :: string
  stderr :: string

text \<open>The three \<open>const\<close> lines after \<open>compileProc.wait\<close>: \<open>(success, errors, warnings)\<close>.\<close>

definition classify :: "process_output \<Rightarrow> bool \<times> string list \<times> string list" where
  "classify output =
     (let success = (exitCode output = 0);
          errors = (if \<not> success then filter (\<lambda>line. trim line \<noteq> []) (split_lines (stderr output)) else []);
          warnings = (if success
                      then filter (\<lambda>line. trim line \<noteq> [] \<and> str_includes (toLowerCase line) ''warning'')
                             (split_lines (stdout output))
                      else [])
      in (success, errors, warnings))"

subsection \<open>Compile and analyse\<close>

text \<open>
  The calls made on the E2B SDK, in the order \<open>testCode\<close> makes them:
  \<open>Sandbox.create\<close>, starting and awaiting the installer, writing \<open>Move.toml\<close>,
  \<open>makeDir\<close>, writing \<open>main.move\<close>, starting and awaiting the compiler, and \<open>close\<close>.
\<close>

datatype sandbox_op =
  Create | StartInstall | WaitInstall | WriteMoveToml | MakeDir | WriteMain
  | StartCompile | WaitCompile | Close

text \<open>
  Everything outside the service that one \<open>testCode\<close> call meets: the environment
  variable, which SDK calls reject (and with what), what the compiler process reports,
  and the OpenRouter credential and endpoint behind \<open>analyzeCode\<close>.
\<close>

record world =
  E2B_API_KEY :: "string option"
  rejects :: "sandbox_op \<Rightarrow> error option"
  compile_output :: process_output
  OPENROUTER_API_KEY :: string
  openrouter :: service

text \<open>Awaiting SDK calls one after the other until one rejects; the calls made are recorded.\<close>

fun await_all ::
  "(sandbox_op \<Rightarrow> error option) \<Rightarrow> sandbox_op list \<Rightarrow> sandbox_op list \<Rightarrow> error option \<times> sandbox_op list" where
  "await_all rej [] made = (None, made)"
| "await_all rej (op # ops) made =
     (case rej op of
        Some e \<Rightarrow> (Some e, made @ [op])
      | None \<Rightarrow> await_all rej ops (made @ [op]))"

definition steps_after_create :: "sandbox_op list" where
  "steps_after_create =
     [StartInstall, WaitInstall, WriteMoveToml, MakeDir, WriteMain, StartCompile, WaitCompile]"

text \<open>
  The \<open>try\<close> block: what it ends with (the thrown value or the result it stored), the
  SDK calls made, and whether \<open>sandbox\<close> was assigned.
\<close>

definition try_block :: "world \<Rightarrow> (error + sim_result) \<times> sandbox_op list \<times> bool" where
  "try_block w =
     (if (case E2B_API_KEY w of None \<Rightarrow> True | Some k \<Rightarrow> k = []) then
        (Inl (Error ''E2B_API_KEY is not set in environment variables.''), [], False)
      else
        (case rejects w Create of
           Some e \<Rightarrow> (Inl e, [Create], False)
         | None \<Rightarrow>
             (case await_all (rejects w) steps_after_create [Create] of
                (Some e, made) \<Rightarrow> (Inl e, made, True)
              | (None, made) \<Rightarrow>
                  (case classify (compile_output w) of
                     (succeeded, errs, warns) \<Rightarrow>
                       (case fst (analyzeCode (OPENROUTER_API_KEY w) (openrouter w)) of
                          Inl e \<Rightarrow> (Inl e, made, True)
                        | Inr analysis \<Rightarrow>
                            (Inr \<lparr>success = succeeded, errors = errs, warnings = Some warns,
                                  gasEstimate = Some ''Compilation check only'',
                                  aiAnalysis = Some analysis\<rparr>,
                             made, True))))))"

text \<open>
  What the simulation holds when the \<open>try\<close> statement is left: the last two assignments
  of the \<open>try\<close> block, or those of the \<open>catch\<close> block.
\<close>

definition settle :: "error + sim_result \<Rightarrow> simulation \<Rightarrow> simulation" where
  "settle outcome simulation =
     (case outcome of
        Inr r \<Rightarrow> simulation\<lparr>result := Some r, status := (if success r then Success else Failed)\<rparr>
      | Inl e \<Rightarrow>
          simulation
            \<lparr>status := Failed,
             result := Some (failure_result
                (message_or ''An unknown error occurred during sandbox execution.'' e))\<rparr>)"

text \<open>
  \<open>testCode\<close>: the outcome for the caller, the registry afterwards and the SDK calls
  made, in order. The stored object is mutated in place, so the registry holds the settled
  simulation also when \<open>await sandbox.close()\<close> in the \<open>finally\<close> block rejects; that
  rejection has no handler and reaches the caller.
\<close>

definition testCode ::
  "world \<Rightarrow> registry \<Rightarrow> string \<Rightarrow> (error + simulation) \<times> registry \<times> sandbox_op list" where
  "testCode w simulations simulationId =
     (case simulations simulationId of
        None \<Rightarrow> (Inl (Error ''Simulation not found''), simulations, [])
      | Some simulation \<Rightarrow>
          if code simulation = [] then
            (Inl (Error ''No code generated for simulation''), simulations, [])
          else
            (case try_block w of
               (outcome, made, sandbox) \<Rightarrow>
                 (let simulation' = settle outcome (simulation\<lparr>status := Compiling\<rparr>);
                      simulations' = simulations(simulationId \<mapsto> simulation')
                  in if sandbox then
                       (case rejects w Close of
                          Some e \<Rightarrow> (Inl e, simulations', made @ [Close])
                        | None \<Rightarrow> (Inr simulation', simulations', made @ [Close]))
                     else (Inr simulation', simulations', made))))"

subsection \<open>Observations used in the statements below\<close>

text \<open>The status the registry shows for a simulation while \<open>generateCode\<close> awaits the remote call.\<close>

definition status_in_flight :: "registry \<Rightarrow> string \<Rightarrow> status option" where
  "status_in_flight simulations simulationId =
     (case generateCode_start simulations simulationId of
        Inl e \<Rightarrow> None
      | Inr (simulation, simulations') \<Rightarrow> map_option status (simulations' simulationId))"

text \<open>\<open>executionCount || 0\<close>, the way the view layer reads the counter.\<close>

definition execution_count :: "simulation \<Rightarrow> nat" where
  "execution_count simulation = (case executionCount simulation of None \<Rightarrow> 0 | Some n \<Rightarrow> n)"

text \<open>Whether \<open>testCode\<close> gets as far as holding a sandbox: the key is set and \<open>Sandbox.create\<close> resolves.\<close>

definition provisioned :: "world \<Rightarrow> bool" where
  "provisioned w = ((case E2B_API_KEY w of None \<Rightarrow> False | Some k \<Rightarrow> k \<noteq> []) \<and> rejects w Create = None)"

text \<open>The lines of a text that are not the empty string, and those with a character that is not white space.\<close>

definition nonempty_lines :: "string \<Rightarrow> string list" where
  "nonempty_lines s = filter (\<lambda>line. line \<noteq> []) (split_lines s)"

definition nonblank_lines :: "string \<Rightarrow> string list" where
  "nonblank_lines s = filter (\<lambda>line. \<exists>c \<in> set line. \<not> is_whitespace c) (split_lines s)"

text \<open>The lines that contain \<open>warning\<close> in any mix of upper and lower case.\<close>

definition warning_lines :: "string \<Rightarrow> string list" where
  "warning_lines s = filter (\<lambda>line. str_includes (toLowerCase line) ''warning'') (split_lines s)"

subsection \<open>Sample inputs\<close>

definition rate_limited :: http_response where
  "rate_limited =
     \<lparr>http_status = 429, statusText = ''Too Many Requests'', retryAfter = None,
      json = \<lparr>choices = []\<rparr>\<rparr>"

definition answer :: "string \<Rightarrow> http_response" where
  "answer text =
     \<lparr>http_status = 200, statusText = ''OK'', retryAfter = None,
      json = \<lparr>choices = [\<lparr>message = \<lparr>role = ''assistant'', content = text\<rparr>\<rparr>]\<rparr>\<rparr>"

definition no_choices :: http_response where
  "no_choices = \<lparr>http_status = 200, statusText = ''OK'', retryAfter = None, json = \<lparr>choices = []\<rparr>\<rparr>"

text \<open>Endpoints: always rate-limited; rate-limited \<open>k\<close> times, then answering; answering with no choice.\<close>

definition always_limited :: service where
  "always_limited n m = rate_limited"

definition limited_then :: "nat \<Rightarrow> string \<Rightarrow> service" where
  "limited_then k text n m = (if n < k then rate_limited else answer text)"

definition answers_nothing :: service where
  "answers_nothing n m = no_choices"

definition no_parameters :: parameters where
  "no_parameters =
     \<lparr>name = None, symbol = None, decimals = None, totalSupply = None, tokenA = None,
      tokenB = None, fee = None, initialLiquidityA = None, initialLiquidityB = None,
      token = None, strategy = None, minDeposit = None\<rparr>"

definition demo_token :: parameters where
  "demo_token =
     no_parameters\<lparr>name := Some ''Demo'', symbol := Some ''DMO'', decimals := Some (Fin 8),
                    totalSupply := Some ''1000000''\<rparr>"

definition long_symbol_token :: parameters where
  "long_symbol_token = demo_token\<lparr>symbol := Some ''ABCDEFGHIJK''\<rparr>"

definition demo_simulation :: simulation where
  "demo_simulation =
     \<lparr>sim_id = ''sim_1_abc'', sim_type = ''token'', sim_parameters = demo_token,
      code = ''module demo::coin {}'', status = Pending, result = None, createdAt = 1,
      executionCount = None\<rparr>"

definition demo_registry :: registry where
  "demo_registry = [''sim_1_abc'' \<mapsto> demo_simulation]"

text \<open>A sandbox in which every call resolves, and two compiler reports.\<close>

definition compiles :: process_output where
  "compiles = \<lparr>exitCode = 0, stdout = ''Compiling, may take a little while'', stderr = []\<rparr>"

definition two_errors :: process_output where
  "two_errors =
     \<lparr>exitCode = 1, stdout = [],
      stderr = ''error: missing module'' @ [CHR 0x0A] @ ''error: unresolved import''\<rparr>"

definition blank_stderr :: process_output where
  "blank_stderr = \<lparr>exitCode = 1, stdout = [], stderr = ''  ''\<rparr>"

definition demo_world :: world where
  "demo_world =
     \<lparr>E2B_API_KEY = Some ''e2b_key'', rejects = (\<lambda>op. None), compile_output = compiles,
      OPENROUTER_API_KEY = ''or_key'', openrouter = limited_then 0 ''Looks fine.''\<rparr>"

text \<open>
  The same sandbox with the compiler step rejecting, with \<open>close\<close> rejecting as well, and
  with no OpenRouter credential.
\<close>

definition compiler_crashes :: world where
  "compiler_crashes =
     demo_world\<lparr>rejects := (\<lambda>op. if op = StartCompile then Some (Error ''process exited'') else None)\<rparr>"

definition close_fails :: world where
  "close_fails =
     demo_world\<lparr>rejects := (\<lambda>op. if op = StartCompile then Some (Error ''process exited'')
                                  else if op = Close then Some (Error ''connection lost'')
                                  else None)\<rparr>"

definition analysis_unavailable :: world where
  "analysis_unavailable = demo_world\<lparr>OPENROUTER_API_KEY := []\<rparr>"

section \<open>The retry loop\<close>

lemma loop_exhausted:
  assumes "\<forall>n m. http_status (svc n m) = 429" and "i \<le> retries"
  shows "fst (makeRequest_loop svc retries i model lastError calls) = Inl too_many_retries
       \<and> length (snd (makeRequest_loop svc retries i model lastError calls))
           = length calls + (Suc retries - i)"
  using assms(2)
proof (induction "retries - i" arbitrary: i model lastError calls)
  case 0
  then have "i = retries" by simp
  then show ?case using assms(1)
    by (simp add: makeRequest_loop.simps [of svc retries retries] Let_def)
next
  case (Suc d)
  then have lt: "i < retries" and d: "d = retries - (i + 1)" and le: "i + 1 \<le> retries"
    by simp_all
  show ?case
    using assms(1) lt Suc.hyps(1) [OF d le]
    by (simp add: makeRequest_loop.simps [of svc retries i] Let_def)
qed

lemma loop_recovers:
  assumes "\<forall>n m. n < N \<longrightarrow> http_status (svc n m) = 429" and "\<forall>m. ok (svc N m)"
    and "N \<le> retries" and "i \<le> N"
  shows "length (snd (makeRequest_loop svc retries i model lastError calls))
           = length calls + (Suc N - i)
       \<and> fst (makeRequest_loop svc retries i model lastError calls)
           = Inr (json (svc N (last (snd (makeRequest_loop svc retries i model lastError calls)))))"
  using assms(4)
proof (induction "N - i" arbitrary: i model lastError calls)
  case 0
  then have "i = N" by simp
  moreover have "http_status (svc N model) \<noteq> 429"
    using assms(2) by (auto simp: ok_def dest: spec [of _ model])
  ultimately show ?case using assms(2,3)
    by (simp add: makeRequest_loop.simps [of svc retries N] Let_def)
next
  case (Suc d)
  then have lt: "i < N" and d: "d = N - (i + 1)" and le: "i + 1 \<le> N"
    by simp_all
  have "http_status (svc i model) = 429" using assms(1) lt by simp
  then show ?case
    using lt assms(3) Suc.hyps(1) [OF d le]
    by (simp add: makeRequest_loop.simps [of svc retries i] Let_def)
qed

text \<open>
  C6. With a credential configured and a retry budget \<open>R\<close>: against an endpoint that
  answers every attempt with status 429, \<open>makeRequest\<close> makes exactly \<open>R + 1\<close> underlying
  calls and then fails with the too-many-retries error; when the first \<open>N\<close> attempts
  (\<open>N < R + 1\<close>) are answered with 429 and the next one with a 2xx response, it makes
  exactly \<open>N + 1\<close> calls and returns the body of that last response.
\<close>

theorem makeRequest_retry_laws:
  "(apiKey \<noteq> [] \<and> (\<forall>n m. http_status (svc n m) = 429) \<longrightarrow>
      fst (makeRequest apiKey svc model R) = Inl too_many_retries
      \<and> length (snd (makeRequest apiKey svc model R)) = R + 1)
   \<and> (apiKey \<noteq> [] \<and> N < R + 1 \<and> (\<forall>n m. n < N \<longrightarrow> http_status (svc n m) = 429)
        \<and> (\<forall>m. ok (svc N m)) \<longrightarrow>
      length (snd (makeRequest apiKey svc model R)) = N + 1
      \<and> fst (makeRequest apiKey svc model R)
          = Inr (json (svc N (last (snd (makeRequest apiKey svc model R))))))"
proof (intro conjI impI)
  assume a: "apiKey \<noteq> [] \<and> (\<forall>n m. http_status (svc n m) = 429)"
  then have all: "\<forall>n m. http_status (svc n m) = 429" by blast
  from a loop_exhausted [OF all, of 0 R model None "[]"]
  show "fst (makeRequest apiKey svc model R) = Inl too_many_retries"
    and "length (snd (makeRequest apiKey svc model R)) = R + 1"
    by (simp_all add: makeRequest_def)
next
  assume a: "apiKey \<noteq> [] \<and> N < R + 1 \<and> (\<forall>n m. n < N \<longrightarrow> http_status (svc n m) = 429)
    \<and> (\<forall>m. ok (svc N m))"
  then have h1: "\<forall>n m. n < N \<longrightarrow> http_status (svc n m) = 429"
    and h2: "\<forall>m. ok (svc N m)" and h3: "N \<le> R"
    by auto
  from a loop_recovers [OF h1 h2 h3, of 0 model None "[]"]
  show "length (snd (makeRequest apiKey svc model R)) = N + 1"
    and "fst (makeRequest apiKey svc model R)
          = Inr (json (svc N (last (snd (makeRequest apiKey svc model R)))))"
    by (simp_all add: makeRequest_def)
qed

text \<open>
  C6, at concrete endpoints with the default budget 2: three calls and the
  too-many-retries error when every attempt is rate-limited; two calls and the answer's
  body when only the first attempt is.
\<close>

theorem makeRequest_retry_laws_witness:
  "fst (makeRequest ''or_key'' always_limited ''vendor/model:free'' 2) = Inl too_many_retries
   \<and> length (snd (makeRequest ''or_key'' always_limited ''vendor/model:free'' 2)) = 3
   \<and> length (snd (makeRequest ''or_key'' (limited_then 1 ''module m {}'') ''vendor/model:free'' 2)) = 2
   \<and> fst (makeRequest ''or_key'' (limited_then 1 ''module m {}'') ''vendor/model:free'' 2)
       = Inr \<lparr>choices = [\<lparr>message = \<lparr>role = ''assistant'', content = ''module m {}''\<rparr>\<rparr>]\<rparr>"
  using makeRequest_retry_laws [of "''or_key''" always_limited "''vendor/model:free''" 2 0]
    makeRequest_retry_laws [of "''or_key''" "limited_then 1 ''module m {}''" "''vendor/model:free''" 2 1]
  by (simp add: always_limited_def limited_then_def rate_limited_def answer_def ok_def)

text \<open>A first answer that is 2xx ends \<open>makeRequest\<close> after one call; no credential ends it before any.\<close>

lemma request_content_first_ok:
  assumes "apiKey \<noteq> []" and "ok (svc 0 default_model)"
  shows "request_content apiKey svc
           = (first_choice_content (json (svc 0 default_model)), [default_model])"
proof -
  have "http_status (svc 0 default_model) \<noteq> 429" using assms(2) by (simp add: ok_def)
  then show ?thesis using assms
    by (simp add: request_content_def makeRequest_def makeRequest_loop.simps [of svc 2 0] Let_def)
qed

lemma request_content_no_key:
  "request_content [] svc = (Inl (Error ''OpenRouter API key not configured''), [])"
  by (simp add: request_content_def makeRequest_def)

text \<open>The default model is not a free-tier one, so the retries keep asking for it.\<close>

lemma default_model_not_free: "\<not> endsWith default_model '':free''"
  by (simp add: endsWith_def default_model_def)

lemma loop_same_model:
  assumes "\<not> endsWith model '':free''"
    and "\<forall>n. n < N \<longrightarrow> http_status (svc n model) = 429" and "ok (svc N model)"
    and "N \<le> retries" and "i \<le> N"
  shows "fst (makeRequest_loop svc retries i model lastError calls) = Inr (json (svc N model))"
  using assms(5)
proof (induction "N - i" arbitrary: i lastError calls)
  case 0
  then have "i = N" by simp
  moreover have "http_status (svc N model) \<noteq> 429"
    using assms(3) by (simp add: ok_def)
  ultimately show ?case using assms(3,4)
    by (simp add: makeRequest_loop.simps [of svc retries N] Let_def)
next
  case (Suc d)
  then have lt: "i < N" and d: "d = N - (i + 1)" and le: "i + 1 \<le> N"
    by simp_all
  have "http_status (svc i model) = 429" using assms(2) lt by simp
  then show ?case
    using lt assms(1,4) Suc.hyps(1) [OF d le]
    by (simp add: makeRequest_loop.simps [of svc retries i] Let_def)
qed

lemma request_content_answered:
  assumes "apiKey \<noteq> []" and "N \<le> 2"
    and "\<forall>n. n < N \<longrightarrow> http_status (svc n default_model) = 429" and "ok (svc N default_model)"
  shows "fst (request_content apiKey svc) = first_choice_content (json (svc N default_model))"
  using assms default_model_not_free
    loop_same_model [of default_model N svc 2 0 None "[]"]
  by (auto simp: request_content_def makeRequest_def split: prod.splits sum.splits)

section \<open>Reading the first choice\<close>

text \<open>
  C9, as stated, fails: it says that a response with an empty choice list makes the call
  fail through a guard of its own (a \<open>MalformedResponseError\<close>). At a 200 response with
  no choice neither \<open>chatWithAssistant\<close> nor \<open>analyzeCode\<close> fails with an error the
  client throws itself.
\<close>

theorem empty_choices_counterexample:
  "\<not> thrown_by_guard (fst (chatWithAssistant ''or_key'' answers_nothing))
   \<and> \<not> thrown_by_guard (fst (analyzeCode ''or_key'' answers_nothing))"
  by (simp add: chatWithAssistant_def analyzeCode_def request_content_first_ok answers_nothing_def
      no_choices_def ok_def first_choice_content_def)

text \<open>
  C9, amended. With a credential configured, when the endpoint (after at most two
  rate-limited attempts) gives an answer that is 2xx, hence not 429: if the response has
  at least one choice, \<open>chatWithAssistant\<close> and \<open>analyzeCode\<close> return the first
  choice's message content unchanged; if its choice list is empty they fail with the
  runtime's \<open>TypeError\<close> for the unguarded read \<open>choices[0].message\<close>.
\<close>

theorem first_choice_or_type_error:
  assumes "apiKey \<noteq> []" and "N \<le> 2"
    and "\<forall>n. n < N \<longrightarrow> http_status (svc n default_model) = 429" and "ok (svc N default_model)"
  shows "(\<forall>c cs. choices (json (svc N default_model)) = c # cs \<longrightarrow>
            fst (chatWithAssistant apiKey svc) = Inr (content (message c))
            \<and> fst (analyzeCode apiKey svc) = Inr (content (message c)))
       \<and> (choices (json (svc N default_model)) = [] \<longrightarrow>
            fst (chatWithAssistant apiKey svc)
              = Inl (TypeError ''Cannot read properties of undefined (reading 'message')'')
            \<and> fst (analyzeCode apiKey svc)
              = Inl (TypeError ''Cannot read properties of undefined (reading 'message')''))"
  using assms request_content_answered [of apiKey N svc]
  by (simp add: chatWithAssistant_def analyzeCode_def first_choice_content_def)

text \<open>
  C9, amended, at an endpoint that answers \<open>Hello\<close> on the second attempt and at one that
  answers at once with no choice.
\<close>

theorem first_choice_or_type_error_witness:
  "fst (chatWithAssistant ''or_key'' (limited_then 1 ''Hello'')) = Inr ''Hello''
   \<and> fst (analyzeCode ''or_key'' (limited_then 1 ''Hello'')) = Inr ''Hello''
   \<and> fst (chatWithAssistant ''or_key'' answers_nothing)
       = Inl (TypeError ''Cannot read properties of undefined (reading 'message')'')"
  using first_choice_or_type_error [of "''or_key''" 1 "limited_then 1 ''Hello''"]
    first_choice_or_type_error [of "''or_key''" 0 answers_nothing]
  by (simp add: limited_then_def answer_def rate_limited_def answers_nothing_def no_choices_def
      ok_def)

section \<open>Validation and creation\<close>

text \<open>
  C10. Whatever the parameters, \<open>validateParameters\<close> with a type other than
  \<open>'token'\<close>, \<open>'pool'\<close> and \<open>'vault'\<close> returns \<open>valid = true\<close> and no error.
\<close>

theorem validateParameters_unknown_type:
  assumes "type \<noteq> ''token''" and "type \<noteq> ''pool''" and "type \<noteq> ''vault''"
  shows "validateParameters type parameters = \<lparr>valid = True, validation_errors = []\<rparr>"
  using assms by (simp add: validateParameters_def)

text \<open>C10, for the type \<open>'nft'\<close> and an object with no property at all.\<close>

theorem validateParameters_unknown_type_witness:
  "validateParameters ''nft'' no_parameters = \<lparr>valid = True, validation_errors = []\<rparr>"
  using validateParameters_unknown_type [of "''nft''" no_parameters] by simp

lemma parseFloat_zero: "parseFloat ''0'' = Fin 0"
  by (simp add: parseFloat_def is_whitespace_def is_digit_def digits_value_def exponent_of_def
      scale10_def round_double_def Let_def)

lemma show_nat_sample: "show_nat 1717 = ''1717''"
  by code_simp

text \<open>
  C3, as stated, fails: a token record whose symbol has 11 characters does not pass
  \<open>validateParameters\<close>, yet \<open>createSimulation\<close> on an empty registry returns a
  simulation and the registry then holds it.
\<close>

theorem createSimulation_invalid_counterexample:
  "\<not> valid (validateParameters ''token'' long_symbol_token)
   \<and> snd (createSimulation Map.empty 1717 ''k3j9x1abc'' ''token'' long_symbol_token)
        (sim_id (fst (createSimulation Map.empty 1717 ''k3j9x1abc'' ''token'' long_symbol_token)))
      \<noteq> None"
  by (simp add: validateParameters_def validate_token_def pushed_def long_symbol_token_def
      demo_token_def no_parameters_def createSimulation_def Let_def)

text \<open>
  C3, amended. \<open>createSimulation\<close> checks nothing: for every type and every parameter
  record it returns a pending simulation of that type holding those parameters, and the
  registry afterwards is the old one with that simulation stored under its id. The
  type-specific checks are \<open>validateParameters\<close>, a separate operation, which reports
  \<open>valid = false\<close> for a token symbol of more than 10 characters, a pool fee of -1 and a
  vault \<open>minDeposit\<close> of \<open>"0"\<close>.
\<close>

theorem createSimulation_never_validates:
  "snd (createSimulation simulations now rnd type parameters)
     = simulations(sim_id (fst (createSimulation simulations now rnd type parameters))
                     \<mapsto> fst (createSimulation simulations now rnd type parameters))
   \<and> status (fst (createSimulation simulations now rnd type parameters)) = Pending
   \<and> sim_type (fst (createSimulation simulations now rnd type parameters)) = type
   \<and> sim_parameters (fst (createSimulation simulations now rnd type parameters)) = parameters
   \<and> (10 < length s \<longrightarrow> \<not> valid (validateParameters ''token'' (parameters\<lparr>symbol := Some s\<rparr>)))
   \<and> \<not> valid (validateParameters ''pool'' (parameters\<lparr>fee := Some (Fin (- 1))\<rparr>))
   \<and> \<not> valid (validateParameters ''vault'' (parameters\<lparr>minDeposit := Some ''0''\<rparr>))"
  by (simp add: createSimulation_def Let_def validateParameters_def validate_token_def
      validate_pool_def validate_vault_def pushed_def parseFloat_zero)

text \<open>C3, amended, at the token record with the 11-character symbol.\<close>

theorem createSimulation_never_validates_witness:
  "snd (createSimulation Map.empty 1717 ''k3j9x1abc'' ''token'' long_symbol_token)
       ''sim_1717_k3j9x1abc''
     = Some (fst (createSimulation Map.empty 1717 ''k3j9x1abc'' ''token'' long_symbol_token))
   \<and> \<not> valid (validateParameters ''token'' long_symbol_token)"
  using createSimulation_never_validates
    [of Map.empty 1717 "''k3j9x1abc''" "''token''" long_symbol_token "''ABCDEFGHIJK''"]
  by (simp add: long_symbol_token_def createSimulation_def show_nat_sample Let_def)

section \<open>Generation\<close>

text \<open>
  C1, as stated, fails: while the request for the sample simulation is awaited its status
  is not \<open>'generating'\<close>, and after the endpoint has answered and the text has been
  returned its status is not \<open>'pending'\<close>.
\<close>

theorem generateCode_status_counterexample:
  "status_in_flight demo_registry ''sim_1_abc'' \<noteq> Some Generating
   \<and> fst (generateCode ''or_key'' (limited_then 0 ''module m {}'') demo_registry ''sim_1_abc'')
       = Inr ''module m {}''
   \<and> map_option status
        (snd (generateCode ''or_key'' (limited_then 0 ''module m {}'') demo_registry ''sim_1_abc'')
           ''sim_1_abc'')
       \<noteq> Some Pending"
  by (simp add: status_in_flight_def generateCode_start_def generateCode_def generate_for_type_def
      generateTokenCode_def request_content_first_ok first_choice_content_def limited_then_def
      answer_def ok_def demo_registry_def demo_simulation_def Let_def)

text \<open>
  The remote call of \<open>generateCode\<close> succeeds when the type is one of the three, a
  credential is configured and the endpoint, after at most two rate-limited attempts,
  answers 2xx with at least one choice; the text is the first choice's content.
\<close>

lemma generate_for_type_answered:
  assumes "type = ''token'' \<or> type = ''pool'' \<or> type = ''vault''"
    and "apiKey \<noteq> []" and "N \<le> 2"
    and "\<forall>n. n < N \<longrightarrow> http_status (svc n default_model) = 429" and "ok (svc N default_model)"
    and "choices (json (svc N default_model)) = c # cs"
  shows "generate_for_type apiKey svc type = Inr (content (message c))"
proof -
  have "fst (request_content apiKey svc) = Inr (content (message c))"
    using assms(2-6) request_content_answered [of apiKey N svc]
    by (simp add: first_choice_content_def)
  then show ?thesis
    using assms(1)
    by (auto simp: generate_for_type_def generateTokenCode_def generatePoolCode_def
        generateVaultCode_def)
qed

lemma generateCode_stores:
  assumes "simulations simulationId = Some simulation"
    and "generate_for_type apiKey svc (sim_type simulation) = Inr t"
  shows "generateCode apiKey svc simulations simulationId
           = (Inr t, simulations(simulationId \<mapsto> simulation\<lparr>status := Compiling, code := t\<rparr>))"
  using assms by (simp add: generateCode_def generateCode_start_def Let_def)

text \<open>
  C1, amended. For every existing simulation id, \<open>generateCode\<close> first sets the
  simulation's status to \<open>'compiling'\<close>. When the remote code-generation call succeeds
  with a text, \<open>generateCode\<close> returns that text, stores it as the simulation's code and
  changes nothing else, so the status stays \<open>'compiling'\<close> (it is set neither to
  \<open>'pending'\<close> nor to \<open>'success'\<close>). The call succeeds in particular whenever the
  simulation's type is \<open>'token'\<close>, \<open>'pool'\<close> or \<open>'vault'\<close>, a credential is configured
  and the endpoint answers 2xx with at least one choice after at most two rate-limited
  attempts; the text is then the first choice's message content.
\<close>

theorem generateCode_leaves_compiling:
  assumes "simulations simulationId = Some simulation"
  shows "status_in_flight simulations simulationId = Some Compiling
       \<and> (\<forall>t. generate_for_type apiKey svc (sim_type simulation) = Inr t \<longrightarrow>
            generateCode apiKey svc simulations simulationId
              = (Inr t, simulations(simulationId \<mapsto> simulation\<lparr>status := Compiling, code := t\<rparr>)))
       \<and> ((sim_type simulation = ''token'' \<or> sim_type simulation = ''pool''
              \<or> sim_type simulation = ''vault'')
            \<and> apiKey \<noteq> [] \<and> N \<le> 2
            \<and> (\<forall>n. n < N \<longrightarrow> http_status (svc n default_model) = 429)
            \<and> ok (svc N default_model) \<and> choices (json (svc N default_model)) = c # cs \<longrightarrow>
            generateCode apiKey svc simulations simulationId
              = (Inr (content (message c)),
                 simulations(simulationId \<mapsto>
                   simulation\<lparr>status := Compiling, code := content (message c)\<rparr>)))"
proof (intro conjI allI impI)
  show "status_in_flight simulations simulationId = Some Compiling"
    using assms by (simp add: status_in_flight_def generateCode_start_def Let_def)
next
  fix t
  assume "generate_for_type apiKey svc (sim_type simulation) = Inr t"
  with assms show "generateCode apiKey svc simulations simulationId
      = (Inr t, simulations(simulationId \<mapsto> simulation\<lparr>status := Compiling, code := t\<rparr>))"
    by (rule generateCode_stores)
next
  assume a: "(sim_type simulation = ''token'' \<or> sim_type simulation = ''pool''
              \<or> sim_type simulation = ''vault'')
            \<and> apiKey \<noteq> [] \<and> N \<le> 2
            \<and> (\<forall>n. n < N \<longrightarrow> http_status (svc n default_model) = 429)
            \<and> ok (svc N default_model) \<and> choices (json (svc N default_model)) = c # cs"
  then have "generate_for_type apiKey svc (sim_type simulation) = Inr (content (message c))"
    using generate_for_type_answered [of "sim_type simulation" apiKey N svc c cs] by blast
  with assms show "generateCode apiKey svc simulations simulationId
      = (Inr (content (message c)),
         simulations(simulationId \<mapsto> simulation\<lparr>status := Compiling, code := content (message c)\<rparr>))"
    by (rule generateCode_stores)
qed

text \<open>
  C1, amended, for the sample simulation and an endpoint that is rate-limited once and
  then answers.
\<close>

theorem generateCode_leaves_compiling_witness:
  "status_in_flight demo_registry ''sim_1_abc'' = Some Compiling
   \<and> generateCode ''or_key'' (limited_then 1 ''module m {}'') demo_registry ''sim_1_abc''
       = (Inr ''module m {}'',
          demo_registry(''sim_1_abc'' \<mapsto> demo_simulation\<lparr>status := Compiling, code := ''module m {}''\<rparr>))"
  using generateCode_leaves_compiling [of demo_registry "''sim_1_abc''" demo_simulation
      "''or_key''" "limited_then 1 ''module m {}''" 1
      "\<lparr>message = \<lparr>role = ''assistant'', content = ''module m {}''\<rparr>\<rparr>" "[]"]
  by (simp add: demo_registry_def demo_simulation_def limited_then_def answer_def rate_limited_def
      ok_def)

section \<open>Compile and analyse: the SDK calls\<close>

lemma await_all_resolves:
  "\<forall>op \<in> set ops. rej op = None \<Longrightarrow> await_all rej ops made = (None, made @ ops)"
  by (induction ops arbitrary: made) simp_all

lemma await_all_first_rejection:
  assumes "op \<in> set ops" and "rej op = Some e"
    and "\<forall>op' \<in> set (takeWhile (\<lambda>x. x \<noteq> op) ops). rej op' = None"
  shows "await_all rej ops made = (Some e, made @ takeWhile (\<lambda>x. x \<noteq> op) ops @ [op])"
  using assms by (induction ops arbitrary: made) auto

lemma await_all_prefix:
  "\<exists>k \<le> length ops. snd (await_all rej ops made) = made @ take k ops"
proof (induction ops arbitrary: made)
  case Nil
  then show ?case by simp
next
  case (Cons op ops)
  show ?case
  proof (cases "rej op")
    case None
    from Cons [of "made @ [op]"] obtain k where
      "k \<le> length ops" and "snd (await_all rej ops (made @ [op])) = (made @ [op]) @ take k ops"
      by blast
    then have "Suc k \<le> length (op # ops)
        \<and> snd (await_all rej (op # ops) made) = made @ take (Suc k) (op # ops)"
      using None by simp
    then show ?thesis by blast
  next
    case (Some e)
    then have "Suc 0 \<le> length (op # ops)
        \<and> snd (await_all rej (op # ops) made) = made @ take (Suc 0) (op # ops)"
      by simp
    then show ?thesis by blast
  qed
qed

text \<open>The calls of the \<open>try\<close> block, case by case.\<close>

lemma try_block_no_key:
  "E2B_API_KEY w = None \<or> E2B_API_KEY w = Some [] \<Longrightarrow>
   try_block w = (Inl (Error ''E2B_API_KEY is not set in environment variables.''), [], False)"
  by (auto simp: try_block_def)

lemma try_block_create_rejects:
  "E2B_API_KEY w = Some k \<Longrightarrow> k \<noteq> [] \<Longrightarrow> rejects w Create = Some e \<Longrightarrow>
   try_block w = (Inl e, [Create], False)"
  by (simp add: try_block_def)

lemma try_block_created:
  assumes "E2B_API_KEY w = Some k" and "k \<noteq> []" and "rejects w Create = None"
  shows "fst (snd (try_block w)) = snd (await_all (rejects w) steps_after_create [Create])"
    and "snd (snd (try_block w))"
  using assms by (auto simp: try_block_def split: option.splits prod.splits sum.splits)

lemma try_block_sandbox: "snd (snd (try_block w)) = provisioned w"
  by (auto simp: try_block_def provisioned_def split: option.splits prod.splits sum.splits)

lemma testCode_calls:
  assumes "simulations simulationId = Some simulation" and "code simulation \<noteq> []"
  shows "snd (snd (testCode w simulations simulationId))
     = (if provisioned w then fst (snd (try_block w)) @ [Close] else fst (snd (try_block w)))"
  using assms try_block_sandbox [of w]
  by (auto simp: testCode_def Let_def split: prod.splits option.splits)

lemma testCode_registry:
  assumes "simulations simulationId = Some simulation" and "code simulation \<noteq> []"
  shows "fst (snd (testCode w simulations simulationId))
     = simulations(simulationId \<mapsto> settle (fst (try_block w)) (simulation\<lparr>status := Compiling\<rparr>))"
  using assms by (auto simp: testCode_def Let_def split: prod.splits option.splits)

lemma testCode_returns:
  assumes "simulations simulationId = Some simulation" and "code simulation \<noteq> []"
    and "provisioned w \<longrightarrow> rejects w Close = None"
  shows "fst (testCode w simulations simulationId)
     = Inr (settle (fst (try_block w)) (simulation\<lparr>status := Compiling\<rparr>))"
  using assms try_block_sandbox [of w]
  by (auto simp: testCode_def Let_def split: prod.splits option.splits)

lemma testCode_close_rejects:
  assumes "simulations simulationId = Some simulation" and "code simulation \<noteq> []"
    and "provisioned w" and "rejects w Close = Some e"
  shows "fst (testCode w simulations simulationId) = Inl e"
  using assms try_block_sandbox [of w]
  by (auto simp: testCode_def Let_def split: prod.splits option.splits)

lemma testCode_returned_is_stored:
  assumes "simulations simulationId = Some simulation" and "code simulation \<noteq> []"
    and "fst (testCode w simulations simulationId) = Inr simulation'"
  shows "simulation' = settle (fst (try_block w)) (simulation\<lparr>status := Compiling\<rparr>)"
  using assms
  by (auto simp: testCode_def Let_def split: prod.splits option.splits if_splits)

lemma close_not_a_step: "Close \<notin> set (take k steps_after_create)"
  by (auto simp: steps_after_create_def dest: in_set_takeD)

text \<open>
  C7. The SDK calls of a run of \<open>testCode\<close>, in order. A run that ends at the lookup or
  at the empty code makes none. For a simulation with code: no call when the E2B key is
  not set; \<open>Sandbox.create\<close> alone when it rejects; when it resolves, \<open>create\<close>, then
  the steps up to and including the first one that rejects (all of them when none does),
  then \<open>close\<close> as the last call. So \<open>close\<close> is called exactly once when \<open>create\<close> was
  called and resolved, whether the compiler succeeds, fails or a later call rejects, and
  not at all otherwise; no run calls it twice.
\<close>

theorem testCode_closes_once:
  "(simulations simulationId = None \<longrightarrow> snd (snd (testCode w simulations simulationId)) = [])
   \<and> (simulations simulationId = Some simulation \<and> code simulation = [] \<longrightarrow>
        snd (snd (testCode w simulations simulationId)) = [])
   \<and> (simulations simulationId = Some simulation \<and> code simulation \<noteq> [] \<longrightarrow>
        (E2B_API_KEY w = None \<or> E2B_API_KEY w = Some [] \<longrightarrow>
           snd (snd (testCode w simulations simulationId)) = [])
        \<and> (E2B_API_KEY w = Some k \<and> k \<noteq> [] \<and> rejects w Create = Some e \<longrightarrow>
           snd (snd (testCode w simulations simulationId)) = [Create])
        \<and> (E2B_API_KEY w = Some k \<and> k \<noteq> [] \<and> rejects w Create = None \<longrightarrow>
           (\<exists>n \<le> length steps_after_create.
              snd (snd (testCode w simulations simulationId))
                = Create # take n steps_after_create @ [Close]))
        \<and> (E2B_API_KEY w = Some k \<and> k \<noteq> [] \<and> rejects w Create = None
             \<and> op \<in> set steps_after_create \<and> rejects w op = Some e
             \<and> (\<forall>op' \<in> set (takeWhile (\<lambda>x. x \<noteq> op) steps_after_create). rejects w op' = None) \<longrightarrow>
           snd (snd (testCode w simulations simulationId))
             = Create # takeWhile (\<lambda>x. x \<noteq> op) steps_after_create @ [op, Close])
        \<and> (E2B_API_KEY w = Some k \<and> k \<noteq> []
             \<and> (\<forall>op' \<in> set (Create # steps_after_create). rejects w op' = None) \<longrightarrow>
           snd (snd (testCode w simulations simulationId))
             = Create # steps_after_create @ [Close])
        \<and> count_list (snd (snd (testCode w simulations simulationId))) Close
             = (if Create \<in> set (snd (snd (testCode w simulations simulationId)))
                   \<and> rejects w Create = None then 1 else 0))
   \<and> count_list (snd (snd (testCode w simulations simulationId))) Close \<le> 1"
proof -
  let ?calls = "snd (snd (testCode w simulations simulationId))"
  have none: "simulations simulationId = None \<longrightarrow> ?calls = []"
    by (simp add: testCode_def)
  have nocode: "simulations simulationId = Some simulation \<and> code simulation = [] \<longrightarrow> ?calls = []"
    by (simp add: testCode_def)
  {
    assume sim: "simulations simulationId = Some simulation" "code simulation \<noteq> []"
    have nokey: "?calls = []" if "E2B_API_KEY w = None \<or> E2B_API_KEY w = Some []"
      using that sim try_block_no_key [of w] by (auto simp: testCode_calls provisioned_def)
    have nocreate: "?calls = [Create]"
      if "E2B_API_KEY w = Some k \<and> k \<noteq> [] \<and> rejects w Create = Some e"
      using that sim try_block_create_rejects [of w k e] by (simp add: testCode_calls provisioned_def)
    have created: "?calls = snd (await_all (rejects w) steps_after_create [Create]) @ [Close]"
      if "E2B_API_KEY w = Some k \<and> k \<noteq> [] \<and> rejects w Create = None" for k
      using that sim try_block_created(1) [of w k] by (simp add: testCode_calls provisioned_def)
    have some: "\<exists>n \<le> length steps_after_create. ?calls = Create # take n steps_after_create @ [Close]"
      if "E2B_API_KEY w = Some k \<and> k \<noteq> [] \<and> rejects w Create = None"
      using created [OF that] await_all_prefix [of steps_after_create "rejects w" "[Create]"]
      by auto
    have first: "?calls = Create # takeWhile (\<lambda>x. x \<noteq> op) steps_after_create @ [op, Close]"
      if "E2B_API_KEY w = Some k \<and> k \<noteq> [] \<and> rejects w Create = None
             \<and> op \<in> set steps_after_create \<and> rejects w op = Some e
             \<and> (\<forall>op' \<in> set (takeWhile (\<lambda>x. x \<noteq> op) steps_after_create). rejects w op' = None)"
      using that created [of k]
        await_all_first_rejection [of op steps_after_create "rejects w" e "[Create]"]
      by simp
    have all: "?calls = Create # steps_after_create @ [Close]"
      if "E2B_API_KEY w = Some k \<and> k \<noteq> []
             \<and> (\<forall>op' \<in> set (Create # steps_after_create). rejects w op' = None)"
      using that created [of k] await_all_resolves [of steps_after_create "rejects w" "[Create]"]
      by simp
    have count: "count_list ?calls Close
             = (if Create \<in> set ?calls \<and> rejects w Create = None then 1 else 0)"
    proof (cases "E2B_API_KEY w = None \<or> E2B_API_KEY w = Some []")
      case True
      then show ?thesis using nokey by simp
    next
      case False
      then obtain k' where k': "E2B_API_KEY w = Some k'" "k' \<noteq> []" by auto
      show ?thesis
      proof (cases "rejects w Create")
        case None
        with k' created [of k'] await_all_prefix [of steps_after_create "rejects w" "[Create]"]
        obtain n where "?calls = Create # take n steps_after_create @ [Close]" by auto
        then show ?thesis using None close_not_a_step [of n] by simp
      next
        case (Some e')
        with k' sim try_block_create_rejects [of w k' e'] have "?calls = [Create]"
          by (simp add: testCode_calls provisioned_def)
        then show ?thesis using Some by simp
      qed
    qed
    note nokey nocreate some first all count
  }
  then have run: "simulations simulationId = Some simulation \<and> code simulation \<noteq> [] \<longrightarrow>
        (E2B_API_KEY w = None \<or> E2B_API_KEY w = Some [] \<longrightarrow> ?calls = [])
        \<and> (E2B_API_KEY w = Some k \<and> k \<noteq> [] \<and> rejects w Create = Some e \<longrightarrow> ?calls = [Create])
        \<and> (E2B_API_KEY w = Some k \<and> k \<noteq> [] \<and> rejects w Create = None \<longrightarrow>
           (\<exists>n \<le> length steps_after_create. ?calls = Create # take n steps_after_create @ [Close]))
        \<and> (E2B_API_KEY w = Some k \<and> k \<noteq> [] \<and> rejects w Create = None
             \<and> op \<in> set steps_after_create \<and> rejects w op = Some e
             \<and> (\<forall>op' \<in> set (takeWhile (\<lambda>x. x \<noteq> op) steps_after_create). rejects w op' = None) \<longrightarrow>
           ?calls = Create # takeWhile (\<lambda>x. x \<noteq> op) steps_after_create @ [op, Close])
        \<and> (E2B_API_KEY w = Some k \<and> k \<noteq> []
             \<and> (\<forall>op' \<in> set (Create # steps_after_create). rejects w op' = None) \<longrightarrow>
           ?calls = Create # steps_after_create @ [Close])
        \<and> count_list ?calls Close
             = (if Create \<in> set ?calls \<and> rejects w Create = None then 1 else 0)"
    by blast
  have "count_list ?calls Close \<le> 1"
  proof (cases "simulations simulationId")
    case None
    then show ?thesis using none by simp
  next
    case (Some s)
    show ?thesis
    proof (cases "code s = []")
      case True
      with Some show ?thesis by (simp add: testCode_def)
    next
      case False
      have "Close \<notin> set (fst (snd (try_block w)))"
      proof -
        obtain n where "snd (await_all (rejects w) steps_after_create [Create])
            = [Create] @ take n steps_after_create"
          using await_all_prefix [of steps_after_create "rejects w" "[Create]"] by blast
        then have "Close \<notin> set (snd (await_all (rejects w) steps_after_create [Create]))"
          using close_not_a_step [of n] by simp
        then show ?thesis
          by (auto simp: try_block_def split: option.splits prod.splits sum.splits)
      qed
      with Some False show ?thesis by (simp add: testCode_calls)
    qed
  qed
  with none nocode run show ?thesis by blast
qed

text \<open>
  C7, for four runs: starting the compiler rejects; every call resolves; the E2B key is
  not set; the simulation id is unknown.
\<close>

theorem testCode_closes_once_witness:
  "snd (snd (testCode compiler_crashes demo_registry ''sim_1_abc''))
     = [Create, StartInstall, WaitInstall, WriteMoveToml, MakeDir, WriteMain, StartCompile, Close]
   \<and> snd (snd (testCode demo_world demo_registry ''sim_1_abc''))
     = [Create, StartInstall, WaitInstall, WriteMoveToml, MakeDir, WriteMain, StartCompile,
        WaitCompile, Close]
   \<and> snd (snd (testCode (demo_world\<lparr>E2B_API_KEY := None\<rparr>) demo_registry ''sim_1_abc'')) = []
   \<and> snd (snd (testCode demo_world demo_registry ''sim_2_xyz'')) = []"
  using testCode_closes_once [of demo_registry "''sim_1_abc''" compiler_crashes demo_simulation
      "''e2b_key''" "Error ''process exited''" StartCompile]
    testCode_closes_once [of demo_registry "''sim_1_abc''" demo_world demo_simulation
      "''e2b_key''" "Error ''process exited''" StartCompile]
    testCode_closes_once [of demo_registry "''sim_1_abc''" "demo_world\<lparr>E2B_API_KEY := None\<rparr>"
      demo_simulation "''e2b_key''" "Error ''process exited''" StartCompile]
    testCode_closes_once [of demo_registry "''sim_2_xyz''" demo_world demo_simulation
      "''e2b_key''" "Error ''process exited''" StartCompile]
  by (simp add: demo_registry_def demo_simulation_def compiler_crashes_def demo_world_def
      steps_after_create_def)

section \<open>Compile and analyse: what is stored and returned\<close>

lemma try_block_sandbox_rejects:
  assumes key: "E2B_API_KEY w = Some k" "k \<noteq> []"
    and op: "op \<in> set (Create # steps_after_create)" "rejects w op = Some e"
    and before: "\<forall>op' \<in> set (takeWhile (\<lambda>x. x \<noteq> op) (Create # steps_after_create)).
                   rejects w op' = None"
  shows "fst (try_block w) = Inl e"
proof (cases "op = Create")
  case True
  with key op show ?thesis by (simp add: try_block_def)
next
  case False
  with op have in_steps: "op \<in> set steps_after_create" by simp
  from False before have c: "rejects w Create = None"
    and rest: "\<forall>op' \<in> set (takeWhile (\<lambda>x. x \<noteq> op) steps_after_create). rejects w op' = None"
    by auto
  show ?thesis
    using key c await_all_first_rejection [OF in_steps op(2) rest, of "[Create]"]
    by (simp add: try_block_def)
qed

lemma try_block_analysis_fails:
  assumes "E2B_API_KEY w = Some k" and "k \<noteq> []"
    and "\<forall>op \<in> set (Create # steps_after_create). rejects w op = None"
    and "fst (analyzeCode (OPENROUTER_API_KEY w) (openrouter w)) = Inl e"
  shows "fst (try_block w) = Inl e"
  using assms by (simp add: try_block_def await_all_resolves split: prod.splits)

lemma settle_thrown:
  "settle (Inl e) (simulation\<lparr>status := Compiling\<rparr>)
     = simulation\<lparr>status := Failed,
         result := Some \<lparr>success = False,
           errors = [case e of Error m \<Rightarrow> m | TypeError m \<Rightarrow> m
                     | NonError \<Rightarrow> ''An unknown error occurred during sandbox execution.''],
           warnings = None, gasEstimate = None, aiAnalysis = None\<rparr>\<rparr>"
  by (cases e) (simp_all add: settle_def failure_result_def)

text \<open>
  C5, as stated, fails: in a run where starting the compiler rejects and \<open>close\<close> then
  rejects with \<open>Error('connection lost')\<close>, \<open>testCode\<close> does not return normally; that
  error reaches the caller.
\<close>

theorem close_rejection_counterexample:
  "fst (testCode close_fails demo_registry ''sim_1_abc'') = Inl (Error ''connection lost'')"
proof -
  have "provisioned close_fails" and "rejects close_fails Close = Some (Error ''connection lost'')"
    by (simp_all add: provisioned_def close_fails_def demo_world_def)
  then show ?thesis
    by (intro testCode_close_rejects [of demo_registry _ demo_simulation])
       (simp_all add: demo_registry_def demo_simulation_def)
qed

text \<open>
  C5, amended. For a simulation with non-empty code, an error raised inside the \<open>try\<close>
  block on the sandbox side is caught and recorded: the stored simulation gets
  \<open>result = { success: false, errors: [message] }\<close> and status \<open>'error'\<close>. That holds
  for the missing E2B key (message \<open>E2B_API_KEY is not set in environment variables.\<close>)
  and for the first SDK call that rejects among creating the sandbox, installing, writing
  the files and starting or awaiting the compiler (the message of the thrown error, or the
  fixed text for a thrown value that is not an \<open>Error\<close>). \<open>testCode\<close> returns that
  simulation normally whenever no sandbox was created or \<open>close\<close> resolves.
\<close>

theorem testCode_reports_sandbox_error:
  assumes "simulations simulationId = Some simulation" and "code simulation \<noteq> []"
  shows "(E2B_API_KEY w = None \<or> E2B_API_KEY w = Some [] \<longrightarrow>
            fst (testCode w simulations simulationId)
              = Inr (simulation\<lparr>status := Failed,
                      result := Some \<lparr>success = False,
                        errors = [''E2B_API_KEY is not set in environment variables.''],
                        warnings = None, gasEstimate = None, aiAnalysis = None\<rparr>\<rparr>)
          \<and> fst (snd (testCode w simulations simulationId)) simulationId
              = Some (simulation\<lparr>status := Failed,
                      result := Some \<lparr>success = False,
                        errors = [''E2B_API_KEY is not set in environment variables.''],
                        warnings = None, gasEstimate = None, aiAnalysis = None\<rparr>\<rparr>))
       \<and> (E2B_API_KEY w = Some k \<and> k \<noteq> []
            \<and> op \<in> set (Create # steps_after_create) \<and> rejects w op = Some e
            \<and> (\<forall>op' \<in> set (takeWhile (\<lambda>x. x \<noteq> op) (Create # steps_after_create)).
                  rejects w op' = None) \<longrightarrow>
            fst (snd (testCode w simulations simulationId)) simulationId
              = Some (simulation\<lparr>status := Failed,
                      result := Some \<lparr>success = False,
                        errors = [case e of Error m \<Rightarrow> m | TypeError m \<Rightarrow> m
                          | NonError \<Rightarrow> ''An unknown error occurred during sandbox execution.''],
                        warnings = None, gasEstimate = None, aiAnalysis = None\<rparr>\<rparr>)
          \<and> (op = Create \<or> rejects w Close = None \<longrightarrow>
               fst (testCode w simulations simulationId)
                 = Inr (simulation\<lparr>status := Failed,
                      result := Some \<lparr>success = False,
                        errors = [case e of Error m \<Rightarrow> m | TypeError m \<Rightarrow> m
                          | NonError \<Rightarrow> ''An unknown error occurred during sandbox execution.''],
                        warnings = None, gasEstimate = None, aiAnalysis = None\<rparr>\<rparr>)))"
proof (intro conjI impI)
  assume nokey: "E2B_API_KEY w = None \<or> E2B_API_KEY w = Some []"
  then have np: "\<not> provisioned w" by (auto simp: provisioned_def)
  from nokey have tb: "fst (try_block w) = Inl (Error ''E2B_API_KEY is not set in environment variables.'')"
    by (simp add: try_block_no_key)
  show "fst (testCode w simulations simulationId)
      = Inr (simulation\<lparr>status := Failed,
              result := Some \<lparr>success = False,
                errors = [''E2B_API_KEY is not set in environment variables.''],
                warnings = None, gasEstimate = None, aiAnalysis = None\<rparr>\<rparr>)"
    using np tb assms testCode_returns [of simulations simulationId simulation w]
    by (simp add: settle_thrown)
  show "fst (snd (testCode w simulations simulationId)) simulationId
      = Some (simulation\<lparr>status := Failed,
              result := Some \<lparr>success = False,
                errors = [''E2B_API_KEY is not set in environment variables.''],
                warnings = None, gasEstimate = None, aiAnalysis = None\<rparr>\<rparr>)"
    using tb assms testCode_registry [of simulations simulationId simulation w]
    by (simp add: settle_thrown)
next
  assume a: "E2B_API_KEY w = Some k \<and> k \<noteq> []
            \<and> op \<in> set (Create # steps_after_create) \<and> rejects w op = Some e
            \<and> (\<forall>op' \<in> set (takeWhile (\<lambda>x. x \<noteq> op) (Create # steps_after_create)).
                  rejects w op' = None)"
  then have tb: "fst (try_block w) = Inl e"
    using try_block_sandbox_rejects [of w k op e] by blast
  show "fst (snd (testCode w simulations simulationId)) simulationId
      = Some (simulation\<lparr>status := Failed,
              result := Some \<lparr>success = False,
                errors = [case e of Error m \<Rightarrow> m | TypeError m \<Rightarrow> m
                  | NonError \<Rightarrow> ''An unknown error occurred during sandbox execution.''],
                warnings = None, gasEstimate = None, aiAnalysis = None\<rparr>\<rparr>)"
    using tb assms testCode_registry [of simulations simulationId simulation w]
    by (simp add: settle_thrown)
  assume c: "op = Create \<or> rejects w Close = None"
  have "provisioned w \<longrightarrow> rejects w Close = None"
    using a c by (auto simp: provisioned_def)
  then show "fst (testCode w simulations simulationId)
      = Inr (simulation\<lparr>status := Failed,
              result := Some \<lparr>success = False,
                errors = [case e of Error m \<Rightarrow> m | TypeError m \<Rightarrow> m
                  | NonError \<Rightarrow> ''An unknown error occurred during sandbox execution.''],
                warnings = None, gasEstimate = None, aiAnalysis = None\<rparr>\<rparr>)"
    using tb assms testCode_returns [of simulations simulationId simulation w]
    by (simp add: settle_thrown)
qed

text \<open>
  C5, amended, when starting the compiler rejects with \<open>Error('process exited')\<close> and
  when the E2B key is not set.
\<close>

theorem testCode_reports_sandbox_error_witness:
  "fst (testCode compiler_crashes demo_registry ''sim_1_abc'')
     = Inr (demo_simulation\<lparr>status := Failed,
             result := Some \<lparr>success = False, errors = [''process exited''], warnings = None,
                              gasEstimate = None, aiAnalysis = None\<rparr>\<rparr>)
   \<and> fst (testCode (demo_world\<lparr>E2B_API_KEY := None\<rparr>) demo_registry ''sim_1_abc'')
     = Inr (demo_simulation\<lparr>status := Failed,
             result := Some \<lparr>success = False,
                errors = [''E2B_API_KEY is not set in environment variables.''], warnings = None,
                gasEstimate = None, aiAnalysis = None\<rparr>\<rparr>)"
  using testCode_reports_sandbox_error [of demo_registry "''sim_1_abc''" demo_simulation
          compiler_crashes "''e2b_key''" StartCompile "Error ''process exited''"]
    testCode_reports_sandbox_error [of demo_registry "''sim_1_abc''" demo_simulation
          "demo_world\<lparr>E2B_API_KEY := None\<rparr>" "''e2b_key''" StartCompile "Error ''process exited''"]
  by (simp add: demo_registry_def demo_simulation_def compiler_crashes_def demo_world_def
          steps_after_create_def)

text \<open>The two sample runs: everything resolves; and the same with no OpenRouter credential.\<close>

lemma demo_world_result:
  "fst (testCode demo_world demo_registry ''sim_1_abc'')
     = Inr (demo_simulation\<lparr>status := Success,
             result := Some \<lparr>success = True, errors = [], warnings = Some [],
                              gasEstimate = Some ''Compilation check only'',
                              aiAnalysis = Some ''Looks fine.''\<rparr>\<rparr>)"
proof -
  have tb: "fst (try_block demo_world)
      = Inr \<lparr>success = True, errors = [], warnings = Some [],
              gasEstimate = Some ''Compilation check only'', aiAnalysis = Some ''Looks fine.''\<rparr>"
    apply (simp add: try_block_def demo_world_def steps_after_create_def analyzeCode_def
      request_content_first_ok limited_then_def answer_def ok_def first_choice_content_def)
    apply (simp add: classify_def compiles_def Let_def trim_def is_whitespace_def toLowerCase_def
      lower_char_def)
    done
  have "rejects demo_world Close = None" by (simp add: demo_world_def)
  then show ?thesis
    using tb testCode_returns [of demo_registry "''sim_1_abc''" demo_simulation demo_world]
    by (simp add: demo_registry_def demo_simulation_def settle_def)
qed

lemma analysis_unavailable_result:
  "fst (testCode analysis_unavailable demo_registry ''sim_1_abc'')
     = Inr (demo_simulation\<lparr>status := Failed,
             result := Some \<lparr>success = False, errors = [''OpenRouter API key not configured''],
                              warnings = None, gasEstimate = None, aiAnalysis = None\<rparr>\<rparr>)"
proof -
  have tb: "fst (try_block analysis_unavailable) = Inl (Error ''OpenRouter API key not configured'')"
    by (simp add: try_block_def analysis_unavailable_def demo_world_def steps_after_create_def
      analyzeCode_def request_content_no_key split: prod.splits)
  have "rejects analysis_unavailable Close = None"
    by (simp add: analysis_unavailable_def demo_world_def)
  then show ?thesis
    using tb testCode_returns [of demo_registry "''sim_1_abc''" demo_simulation analysis_unavailable]
    by (simp add: demo_registry_def demo_simulation_def settle_def failure_result_def)
qed

text \<open>
  C4, as stated, fails: it says that a failing analysis request only leaves the narrative
  out. In two runs with the same sandbox and the same compiler report (exit code 0), the
  one whose analysis request succeeds ends with \<open>success = true\<close> and status
  \<open>'success'\<close>, the one whose analysis request fails ends with \<open>success = false\<close>, the
  request's error as the only entry of \<open>errors\<close>, and status \<open>'error'\<close>.
\<close>

theorem analysis_failure_counterexample:
  "exitCode (compile_output analysis_unavailable) = 0
   \<and> fst (testCode demo_world demo_registry ''sim_1_abc'')
       = Inr (demo_simulation\<lparr>status := Success,
             result := Some \<lparr>success = True, errors = [], warnings = Some [],
                              gasEstimate = Some ''Compilation check only'',
                              aiAnalysis = Some ''Looks fine.''\<rparr>\<rparr>)
   \<and> fst (testCode analysis_unavailable demo_registry ''sim_1_abc'')
       = Inr (demo_simulation\<lparr>status := Failed,
             result := Some \<lparr>success = False, errors = [''OpenRouter API key not configured''],
                              warnings = None, gasEstimate = None, aiAnalysis = None\<rparr>\<rparr>)"
proof (intro conjI)
  show "exitCode (compile_output analysis_unavailable) = 0"
    by (simp add: analysis_unavailable_def demo_world_def compiles_def)
qed (rule demo_world_result, rule analysis_unavailable_result)

text \<open>
  C4, amended. For a simulation with non-empty code, when every sandbox call up to the
  compiler's end resolved (so the compiler ran, whatever its exit code) and the analysis
  request then fails with \<open>e\<close>, the failure is handled like any other error in the
  \<open>try\<close> block: the stored simulation's result becomes
  \<open>{ success: false, errors: [message of e] }\<close> (no warnings, no estimate, no narrative)
  and its status \<open>'error'\<close>, and \<open>testCode\<close> returns that simulation normally when
  \<open>close\<close> resolves.
\<close>

theorem analysis_failure_is_reported:
  assumes "simulations simulationId = Some simulation" and "code simulation \<noteq> []"
    and "E2B_API_KEY w = Some k" and "k \<noteq> []"
    and "\<forall>op \<in> set (Create # steps_after_create). rejects w op = None"
    and "fst (analyzeCode (OPENROUTER_API_KEY w) (openrouter w)) = Inl e"
  shows "fst (snd (testCode w simulations simulationId)) simulationId
           = Some (simulation\<lparr>status := Failed,
                   result := Some \<lparr>success = False,
                     errors = [case e of Error m \<Rightarrow> m | TypeError m \<Rightarrow> m
                       | NonError \<Rightarrow> ''An unknown error occurred during sandbox execution.''],
                     warnings = None, gasEstimate = None, aiAnalysis = None\<rparr>\<rparr>)
       \<and> (rejects w Close = None \<longrightarrow>
            fst (testCode w simulations simulationId)
              = Inr (simulation\<lparr>status := Failed,
                   result := Some \<lparr>success = False,
                     errors = [case e of Error m \<Rightarrow> m | TypeError m \<Rightarrow> m
                       | NonError \<Rightarrow> ''An unknown error occurred during sandbox execution.''],
                     warnings = None, gasEstimate = None, aiAnalysis = None\<rparr>\<rparr>))"
proof -
  have tb: "fst (try_block w) = Inl e"
    using assms(3-6) by (rule try_block_analysis_fails)
  show ?thesis
    using tb assms(1,2) testCode_registry [of simulations simulationId simulation w]
      testCode_returns [of simulations simulationId simulation w]
    by (simp add: settle_thrown)
qed

text \<open>C4, amended, for the run with no OpenRouter credential.\<close>

theorem analysis_failure_is_reported_witness:
  "fst (testCode analysis_unavailable demo_registry ''sim_1_abc'')
     = Inr (demo_simulation\<lparr>status := Failed,
             result := Some \<lparr>success = False, errors = [''OpenRouter API key not configured''],
                              warnings = None, gasEstimate = None, aiAnalysis = None\<rparr>\<rparr>)"
  using analysis_failure_is_reported [of demo_registry "''sim_1_abc''" demo_simulation
      analysis_unavailable "''e2b_key''" "Error ''OpenRouter API key not configured''"]
  by (simp add: demo_registry_def demo_simulation_def analysis_unavailable_def demo_world_def
      analyzeCode_def request_content_no_key)

section \<open>The execution counter\<close>

lemma settle_keeps_count: "executionCount (settle outcome simulation) = executionCount simulation"
  by (simp add: settle_def split: sum.splits)

lemma testCode_keeps_counts:
  "map_option executionCount (fst (snd (testCode w simulations simulationId)) other)
     = map_option executionCount (simulations other)"
  by (auto simp: testCode_def Let_def settle_keeps_count split: option.splits prod.splits sum.splits)

lemma generateCode_keeps_counts:
  "map_option executionCount (snd (generateCode apiKey svc simulations simulationId) other)
     = map_option executionCount (simulations other)"
  by (auto simp: generateCode_def generateCode_start_def Let_def
      split: option.splits prod.splits sum.splits)

text \<open>
  C2, as stated, fails: the sample run of \<open>testCode\<close> completes (it returns a simulation),
  and the simulation's counter afterwards is not one more than before.
\<close>

theorem testCode_count_counterexample:
  "\<not> isl (fst (testCode demo_world demo_registry ''sim_1_abc''))
   \<and> map_option execution_count
        (fst (snd (testCode demo_world demo_registry ''sim_1_abc'')) ''sim_1_abc'')
       \<noteq> Some (execution_count demo_simulation + 1)"
proof -
  have "map_option executionCount
          (fst (snd (testCode demo_world demo_registry ''sim_1_abc'')) ''sim_1_abc'')
      = Some None"
    by (simp add: testCode_keeps_counts demo_registry_def demo_simulation_def)
  then obtain s where
    "fst (snd (testCode demo_world demo_registry ''sim_1_abc'')) ''sim_1_abc'' = Some s"
    and "executionCount s = None"
    by auto
  then have "map_option execution_count
          (fst (snd (testCode demo_world demo_registry ''sim_1_abc'')) ''sim_1_abc'')
      = Some 0"
    by (simp add: execution_count_def)
  moreover have "execution_count demo_simulation = 0"
    by (simp add: execution_count_def demo_simulation_def)
  ultimately show ?thesis
    by (auto simp: demo_world_result)
qed

text \<open>
  C2, amended. The service never writes \<open>executionCount\<close>. After a call of \<open>testCode\<close>
  on a simulation with non-empty code the registry holds the simulation with the counter
  exactly as it was, whether the compile succeeded, failed or a sandbox call rejected;
  whenever the call completes, the simulation it returns is that stored one, and it does
  complete when no sandbox was created or \<open>close\<close> resolves. No call of \<open>testCode\<close> or
  \<open>generateCode\<close> changes the counter of any simulation (so it never decreases);
  \<open>createSimulation\<close> creates the simulation without one and leaves the entries under
  other ids alone.
\<close>

theorem executionCount_untouched:
  "(simulations simulationId = Some simulation \<and> code simulation \<noteq> [] \<longrightarrow>
      (\<exists>simulation'.
           fst (snd (testCode w simulations simulationId)) simulationId = Some simulation'
         \<and> executionCount simulation' = executionCount simulation
         \<and> (\<forall>returned. fst (testCode w simulations simulationId) = Inr returned \<longrightarrow>
               returned = simulation')
         \<and> ((provisioned w \<longrightarrow> rejects w Close = None) \<longrightarrow>
               fst (testCode w simulations simulationId) = Inr simulation')))
   \<and> map_option executionCount (fst (snd (testCode w simulations simulationId)) other)
       = map_option executionCount (simulations other)
   \<and> map_option executionCount (snd (generateCode apiKey svc simulations simulationId) other)
       = map_option executionCount (simulations other)
   \<and> executionCount (fst (createSimulation simulations now rnd type parameters)) = None
   \<and> (other \<noteq> sim_id (fst (createSimulation simulations now rnd type parameters)) \<longrightarrow>
        snd (createSimulation simulations now rnd type parameters) other = simulations other)"
proof -
  have "simulations simulationId = Some simulation \<and> code simulation \<noteq> [] \<longrightarrow>
      (\<exists>simulation'.
           fst (snd (testCode w simulations simulationId)) simulationId = Some simulation'
         \<and> executionCount simulation' = executionCount simulation
         \<and> (\<forall>returned. fst (testCode w simulations simulationId) = Inr returned \<longrightarrow>
               returned = simulation')
         \<and> ((provisioned w \<longrightarrow> rejects w Close = None) \<longrightarrow>
               fst (testCode w simulations simulationId) = Inr simulation'))"
  proof
    assume sim: "simulations simulationId = Some simulation \<and> code simulation \<noteq> []"
    let ?s = "settle (fst (try_block w)) (simulation\<lparr>status := Compiling\<rparr>)"
    have "fst (snd (testCode w simulations simulationId)) simulationId = Some ?s"
      using sim testCode_registry [of simulations simulationId simulation w] by simp
    moreover have "executionCount ?s = executionCount simulation"
      by (simp add: settle_keeps_count)
    moreover have "\<forall>returned. fst (testCode w simulations simulationId) = Inr returned \<longrightarrow>
        returned = ?s"
      using sim testCode_returned_is_stored [of simulations simulationId simulation w] by blast
    moreover have "(provisioned w \<longrightarrow> rejects w Close = None) \<longrightarrow>
        fst (testCode w simulations simulationId) = Inr ?s"
      using sim testCode_returns [of simulations simulationId simulation w] by blast
    ultimately show "\<exists>simulation'.
           fst (snd (testCode w simulations simulationId)) simulationId = Some simulation'
         \<and> executionCount simulation' = executionCount simulation
         \<and> (\<forall>returned. fst (testCode w simulations simulationId) = Inr returned \<longrightarrow>
               returned = simulation')
         \<and> ((provisioned w \<longrightarrow> rejects w Close = None) \<longrightarrow>
               fst (testCode w simulations simulationId) = Inr simulation')"
      by blast
  qed
  moreover have "executionCount (fst (createSimulation simulations now rnd type parameters)) = None"
    and "other \<noteq> sim_id (fst (createSimulation simulations now rnd type parameters)) \<longrightarrow>
        snd (createSimulation simulations now rnd type parameters) other = simulations other"
    by (simp_all add: createSimulation_def Let_def)
  ultimately show ?thesis
    using testCode_keeps_counts [of w simulations simulationId other]
      generateCode_keeps_counts [of apiKey svc simulations simulationId other]
    by blast
qed

text \<open>C2, amended, for the sample run and for a creation next to the sample simulation.\<close>

theorem executionCount_untouched_witness:
  "(\<exists>simulation'. fst (testCode demo_world demo_registry ''sim_1_abc'') = Inr simulation'
      \<and> fst (snd (testCode demo_world demo_registry ''sim_1_abc'')) ''sim_1_abc'' = Some simulation'
      \<and> executionCount simulation' = None)
   \<and> snd (createSimulation demo_registry 1717 ''k3j9x1abc'' ''token'' demo_token) ''sim_1_abc''
       = Some demo_simulation"
proof -
  have "rejects demo_world Close = None" by (simp add: demo_world_def)
  then show ?thesis
    using executionCount_untouched [of demo_registry "''sim_1_abc''" demo_simulation demo_world
      "''sim_1_abc''" "''or_key''" always_limited 1717 "''k3j9x1abc''" "''token''" demo_token]
    by (auto simp: demo_registry_def demo_simulation_def createSimulation_def Let_def)
qed

section \<open>Classifying the compiler's report\<close>

lemma trim_empty_iff: "trim s = [] \<longleftrightarrow> (\<forall>c \<in> set s. is_whitespace c)"
proof
  assume "trim s = []"
  then have all: "\<forall>c \<in> set (dropWhile is_whitespace s). is_whitespace c"
    by (simp add: trim_def dropWhile_eq_Nil_conv)
  show "\<forall>c \<in> set s. is_whitespace c"
  proof (rule ccontr)
    assume "\<not> (\<forall>c \<in> set s. is_whitespace c)"
    then have ne: "dropWhile is_whitespace s \<noteq> []" by (simp add: dropWhile_eq_Nil_conv)
    then have "\<not> is_whitespace (hd (dropWhile is_whitespace s))" by (rule hd_dropWhile)
    moreover have "hd (dropWhile is_whitespace s) \<in> set (dropWhile is_whitespace s)"
      using ne by simp
    ultimately show False using all by blast
  qed
next
  assume "\<forall>c \<in> set s. is_whitespace c"
  then show "trim s = []" by (auto simp: trim_def dest: set_dropWhileD)
qed

lemma str_includes_hd: "str_includes s sub \<Longrightarrow> sub \<noteq> [] \<Longrightarrow> hd sub \<in> set s"
proof (induction s)
  case Nil
  then show ?case by simp
next
  case (Cons c cs)
  show ?case
  proof (cases "take (length sub) (c # cs) = sub")
    case True
    with Cons.prems(2) have "hd sub = c" by (cases sub) auto
    then show ?thesis by simp
  next
    case False
    with Cons show ?thesis by simp
  qed
qed

lemma lower_char_whitespace: "is_whitespace c \<Longrightarrow> lower_char c = c"
  by (auto simp: is_whitespace_def lower_char_def)

lemma warning_line_not_blank:
  assumes "str_includes (toLowerCase line) ''warning''"
  shows "trim line \<noteq> []"
proof
  assume "trim line = []"
  then have ws: "\<forall>c \<in> set line. is_whitespace c" by (simp add: trim_empty_iff)
  from assms have "hd ''warning'' \<in> set (toLowerCase line)" by (rule str_includes_hd) simp
  then obtain c where c: "c \<in> set line" and "lower_char c = CHR ''w''"
    by (auto simp: toLowerCase_def)
  with ws have "is_whitespace (CHR ''w'')" using lower_char_whitespace by fastforce
  then show False by (simp add: is_whitespace_def)
qed

text \<open>
  C8, as stated, fails: with a non-zero exit code and a \<open>stderr\<close> of two spaces, the
  error list is not the list of the non-empty lines of \<open>stderr\<close> (that line is not empty,
  and it is left out).
\<close>

theorem blank_line_counterexample:
  "exitCode blank_stderr \<noteq> 0
   \<and> fst (snd (classify blank_stderr)) \<noteq> nonempty_lines (stderr blank_stderr)"
  by (simp add: blank_stderr_def classify_def nonempty_lines_def trim_def is_whitespace_def Let_def)

text \<open>
  C8, amended. For every compiler report, the outcome is a success exactly when the exit
  code is 0; when it is not 0, the error list is the lines of \<open>stderr\<close> that have a
  character other than white space, in order, and there is no warning; when it is 0, the
  warning list is the lines of \<open>stdout\<close> that contain \<open>warning\<close> in any mix of cases, in
  order, and the error list is empty.
\<close>

theorem classify_outcome:
  "classify output =
     (exitCode output = 0,
      if exitCode output = 0 then [] else nonblank_lines (stderr output),
      if exitCode output = 0 then warning_lines (stdout output) else [])"
proof -
  have e: "filter (\<lambda>line. trim line \<noteq> []) xs
      = filter (\<lambda>line. \<exists>c \<in> set line. \<not> is_whitespace c) xs" for xs
    by (simp add: trim_empty_iff)
  have w: "filter (\<lambda>line. trim line \<noteq> [] \<and> str_includes (toLowerCase line) ''warning'') xs
      = filter (\<lambda>line. str_includes (toLowerCase line) ''warning'') xs" for xs
    by (rule filter_cong) (auto dest: warning_line_not_blank)
  show ?thesis
    by (simp add: classify_def Let_def nonblank_lines_def warning_lines_def e w)
qed

text \<open>C8, amended, for a report with two error lines and for the one with a blank line.\<close>

theorem classify_outcome_witness:
  "classify two_errors = (False, [''error: missing module'', ''error: unresolved import''], [])
   \<and> classify blank_stderr = (False, [], [])"
  using classify_outcome [of two_errors] classify_outcome [of blank_stderr]
  by (simp add: two_errors_def blank_stderr_def nonblank_lines_def is_whitespace_def)

end
